theory Spec2Isabelle
  imports Complex_Main
begin

section \<open>The game object of server.js\<close>

text \<open>
  The two markers of a game, \<^verbatim>\<open>'X'\<close> (\<open>SymX\<close>) and \<^verbatim>\<open>'O'\<close> (\<open>SymO\<close>). They are the only values the move
  handler ever passes as \<^verbatim>\<open>symbol\<close> (they come from the membership records written by
  \<^verbatim>\<open>findGame\<close>).
\<close>

datatype symbol = SymX | SymO

text \<open>
  What reading \<^verbatim>\<open>this.board[k]\<close> can give: \<^verbatim>\<open>null\<close> (an empty cell), a marker, or a value
  that is neither (\<^verbatim>\<open>undefined\<close> for an index outside the array or a hole; also standing
  for the non-null value of an ordinary property of the array such as \<^verbatim>\<open>length\<close>).
\<close>

datatype cell = Null | Mark symbol | Undefined

text \<open>
  The \<^verbatim>\<open>position\<close> of a move is whatever the client sent. A JavaScript number is finite
  (here a real, which covers every finite double), or one of the three special values.
  Every other value is turned into a string property key by the property access, so a
  string stands for it, unless the conversion fails: \<open>Unconvertible\<close> is a value whose
  conversion to a property key throws, an object that has no primitive value such as
  \<^verbatim>\<open>{"toString": 1}\<close> (its own \<^verbatim>\<open>toString\<close> cannot be called and the inherited \<^verbatim>\<open>valueOf\<close>
  gives the object back), or an array that holds one. A client can send one as plain
  JSON.
\<close>

datatype position = Num real | NaN | Infinity | NegInfinity | Str string | Unconvertible

text \<open>
  The exception that can come out of the code: the \<^verbatim>\<open>TypeError\<close> of using an
  \<open>Unconvertible\<close> value as a property key.
\<close>

datatype error = TypeError

text \<open>Decimal digits of a string key, read the way an array index is recognised.\<close>

definition isDigit :: "char \<Rightarrow> bool" where
  "isDigit c = (c \<in> set ''0123456789'')"

definition digitVal :: "char \<Rightarrow> nat" where
  "digitVal c = of_char c - 48"

definition decimalVal :: "string \<Rightarrow> nat" where
  "decimalVal s = foldl (\<lambda>n c. 10 * n + digitVal c) 0 s"

text \<open>
  The array index a property key denotes, if it denotes one: a number that is a
  non-negative integer below \<open>2^32 - 1\<close>, or a string that is the canonical decimal
  numeral of such an integer (no sign, no leading zero). Every other key names an
  ordinary property.
\<close>

fun toIndex :: "position \<Rightarrow> nat option" where
  "toIndex (Num r) =
     (if r = of_int \<lfloor>r\<rfloor> \<and> 0 \<le> r \<and> r < 4294967295 then Some (nat \<lfloor>r\<rfloor>) else None)"
| "toIndex (Str s) =
     (if s \<noteq> [] \<and> list_all isDigit s \<and> (hd s = CHR ''0'' \<longrightarrow> length s = 1)
         \<and> decimalVal s < 4294967295
      then Some (decimalVal s) else None)"
| "toIndex _ = None"

text \<open>\<^verbatim>\<open>board[i]\<close> for an array index: outside the array the read gives \<^verbatim>\<open>undefined\<close>.\<close>

definition cellAt :: "cell list \<Rightarrow> nat \<Rightarrow> cell" where
  "cellAt b i = (if i < length b then b ! i else Undefined)"

text \<open>
  \<^verbatim>\<open>this.board[position]\<close> for any position: the conversion to a property key comes
  first and throws for \<open>Unconvertible\<close>; otherwise the read gives a value.
\<close>

definition getCell :: "cell list \<Rightarrow> position \<Rightarrow> error + cell" where
  "getCell b p =
     (if p = Unconvertible then Inl TypeError
      else Inr (case toIndex p of Some i \<Rightarrow> cellAt b i | None \<Rightarrow> Undefined))"

text \<open>
  \<^verbatim>\<open>this.board[position] = symbol\<close>, with the same conversion first. Inside the array
  the cell is replaced. An index beyond the end makes JavaScript extend the array,
  leaving holes in between. A key that is no array index sets an ordinary property and
  leaves the cells alone.
\<close>

definition setCell :: "cell list \<Rightarrow> position \<Rightarrow> symbol \<Rightarrow> error + cell list" where
  "setCell b p s =
     (if p = Unconvertible then Inl TypeError
      else Inr (case toIndex p of
                  Some i \<Rightarrow>
                    (if i < length b then b[i := Mark s]
                     else b @ replicate (i - length b) Undefined @ [Mark s])
                | None \<Rightarrow> b))"

type_synonym socketId = string
type_synonym roomId = string

record game =
  roomId :: roomId
  board :: "cell list"
  playerX :: socketId
  playerO :: socketId
  currentTurn :: symbol
  winner :: "symbol option"
  isDraw :: bool
  moveCount :: nat
  startTime :: real

text \<open>The constructor: \<^verbatim>\<open>new Game(roomId, player1, player2)\<close> at time \<open>now\<close>.\<close>

definition newGame :: "roomId \<Rightarrow> socketId \<Rightarrow> socketId \<Rightarrow> real \<Rightarrow> game" where
  "newGame rid player1 player2 now =
     \<lparr> roomId = rid, board = replicate 9 Null, playerX = player1, playerO = player2,
       currentTurn = SymX, winner = None, isDraw = False, moveCount = 0, startTime = now \<rparr>"

definition winPatterns :: "(nat \<times> nat \<times> nat) list" where
  "winPatterns =
     [(0, 1, 2), (3, 4, 5), (6, 7, 8),
      (0, 3, 6), (1, 4, 7), (2, 5, 8),
      (0, 4, 8), (2, 4, 6)]"

text \<open>JavaScript truthiness of a cell value: only a marker (a non-empty string) is truthy.\<close>

fun truthy :: "cell \<Rightarrow> bool" where
  "truthy (Mark _) = True"
| "truthy _ = False"

fun markOf :: "cell \<Rightarrow> symbol option" where
  "markOf (Mark m) = Some m"
| "markOf _ = None"

text \<open>
  The \<^verbatim>\<open>for\<close> loop of \<^verbatim>\<open>checkWinner\<close>: the marker of the first pattern whose three cells
  hold the same truthy value, where the loop returns; \<open>None\<close> when it runs to the end.
\<close>

fun checkLoop :: "cell list \<Rightarrow> (nat \<times> nat \<times> nat) list \<Rightarrow> symbol option" where
  "checkLoop b [] = None"
| "checkLoop b ((a, b', c) # ps) =
     (if truthy (cellAt b a) \<and> cellAt b a = cellAt b b' \<and> cellAt b a = cellAt b c
      then markOf (cellAt b a)
      else checkLoop b ps)"

definition checkWinner :: "game \<Rightarrow> game" where
  "checkWinner g =
     (case checkLoop (board g) winPatterns of
        Some m \<Rightarrow> g\<lparr>winner := Some m\<rparr>
      | None \<Rightarrow> (if moveCount g = 9 then g\<lparr>isDraw := True\<rparr> else g))"

definition flipTurn :: "symbol \<Rightarrow> symbol" where
  "flipTurn t = (if t = SymX then SymO else SymX)"

text \<open>
  \<^verbatim>\<open>makeMove(position, symbol)\<close>: how the call ends, with the exception it throws or the
  boolean it returns, and the game object after the call. The guard reads the cell
  before it looks at the flags, so the exception comes first; it leaves the object as it
  was, since nothing has been written yet.
\<close>

definition makeMove :: "position \<Rightarrow> symbol \<Rightarrow> game \<Rightarrow> (error + bool) \<times> game" where
  "makeMove p s g =
     (case getCell (board g) p of
        Inl e \<Rightarrow> (Inl e, g)
      | Inr c \<Rightarrow>
          if c \<noteq> Null \<or> winner g \<noteq> None \<or> isDraw g then (Inr False, g)
          else
            (case setCell (board g) p s of
               Inl e \<Rightarrow> (Inl e, g)
             | Inr b \<Rightarrow>
                 let g1 = g\<lparr>board := b\<rparr>;
                     g2 = g1\<lparr>moveCount := moveCount g1 + 1\<rparr>;
                     g3 = checkWinner g2
                 in (Inr True, g3\<lparr>currentTurn := flipTurn (currentTurn g3)\<rparr>)))"

text \<open>
  A run of calls on one game, each with its own position and symbol. A call that throws
  is part of the run like any other: the game object is there after it.
\<close>

fun playMoves :: "(position \<times> symbol) list \<Rightarrow> game \<Rightarrow> game" where
  "playMoves [] g = g"
| "playMoves ((p, s) # ms) g = playMoves ms (snd (makeMove p s g))"


section \<open>The event handlers of server.js\<close>

text \<open>An entry of the \<^verbatim>\<open>players\<close> map: \<^verbatim>\<open>{ roomId, symbol, name }\<close>.\<close>

record player =
  proomId :: roomId
  psymbol :: symbol
  pname :: string

record metrics =
  totalGames :: int
  activeGames :: int
  totalConnections :: int
  peakConnections :: int
  averageGameDuration :: real

text \<open>The object \<^verbatim>\<open>getState()\<close> returns, as it is serialised into a message.\<close>

record gameState =
  st_board :: "cell list"
  st_currentTurn :: symbol
  st_winner :: "symbol option"
  st_isDraw :: bool
  st_players :: "socketId \<times> socketId"
  st_moveCount :: nat

definition getState :: "game \<Rightarrow> gameState" where
  "getState g =
     \<lparr> st_board = board g, st_currentTurn = currentTurn g, st_winner = winner g,
       st_isDraw = isDraw g, st_players = (playerX g, playerO g),
       st_moveCount = moveCount g \<rparr>"

text \<open>
  The messages the handlers emit, and where to: \<^verbatim>\<open>socket.emit\<close> and \<^verbatim>\<open>io.to(id)\<close> address
  one socket, \<^verbatim>\<open>io.to(roomId)\<close> the sockets that joined the room.
\<close>

datatype message =
    Waiting
  | GameStart roomId symbol string gameState
  | GameUpdate gameState
  | GameEnd "symbol option" bool real nat
  | OpponentDisconnected
  | Error string

datatype target = ToSocket socketId | ToRoom roomId

text \<open>
  The callback handed to \<^verbatim>\<open>setTimeout\<close> by a move that ends a game, with the variables
  it closes over. The game object it holds is the one in the \<^verbatim>\<open>games\<close> map; once a
  terminal flag is set \<^verbatim>\<open>makeMove\<close> changes it no more, so its value at the time of the
  call is its value when the callback runs.
\<close>

record timer =
  t_roomId :: roomId
  t_socketId :: socketId
  t_symbol :: symbol
  t_game :: game
  t_gameDuration :: real

record server =
  games :: "roomId \<rightharpoonup> game"
  players :: "socketId \<rightharpoonup> player"
  waitingPlayers :: "socketId list"
  metrics :: metrics
  timers :: "timer list"

definition initial :: server where
  "initial =
     \<lparr> games = Map.empty, players = Map.empty, waitingPlayers = [],
       metrics = \<lparr> totalGames = 0, activeGames = 0, totalConnections = 0,
                   peakConnections = 0, averageGameDuration = 0 \<rparr>,
       timers = [] \<rparr>"

text \<open>
  \<^verbatim>\<open>socket.on('findGame')\<close> for the socket \<open>sid\<close>. \<open>rid\<close> is the room id the handler builds
  from \<^verbatim>\<open>Date.now()\<close> and \<^verbatim>\<open>Math.random()\<close>, \<open>now\<close> the clock read by the constructor.
\<close>

definition onFindGame ::
  "socketId \<Rightarrow> roomId \<Rightarrow> real \<Rightarrow> server \<Rightarrow> (target \<times> message) list \<times> server" where
  "onFindGame sid rid now s =
     (case waitingPlayers s of
        opponent # rest \<Rightarrow>
          let gm = newGame rid sid opponent now;
              ps1 = (players s)(sid \<mapsto> \<lparr> proomId = rid, psymbol = SymX, pname = ''Player1'' \<rparr>);
              ps2 = ps1(opponent \<mapsto> \<lparr> proomId = rid, psymbol = SymO, pname = ''Player2'' \<rparr>);
              m = metrics s
          in ([(ToSocket sid, GameStart rid SymX ''Player2'' (getState gm)),
               (ToSocket opponent, GameStart rid SymO ''Player1'' (getState gm))],
              s\<lparr> waitingPlayers := rest,
                 games := (games s)(rid \<mapsto> gm),
                 players := ps2,
                 metrics := m\<lparr> totalGames := totalGames m + 1,
                               activeGames := activeGames m + 1 \<rparr> \<rparr>)
      | [] \<Rightarrow>
          ([(ToSocket sid, Waiting)], s\<lparr> waitingPlayers := waitingPlayers s @ [sid] \<rparr>))"

text \<open>The metrics update of a move that ended a game, \<open>gameDuration\<close> in seconds.\<close>

definition updateMetrics :: "real \<Rightarrow> metrics \<Rightarrow> metrics" where
  "updateMetrics gameDuration m =
     (let m1 = m\<lparr> activeGames := activeGames m - 1 \<rparr>;
          totalDuration =
            averageGameDuration m1 * of_int (totalGames m1 - 1) + gameDuration
      in m1\<lparr> averageGameDuration := totalDuration / of_int (totalGames m1) \<rparr>)"

text \<open>
  How a handler ends: with an exception that leaves it, or with the messages it has
  emitted.
\<close>

type_synonym outcome = "error + (target \<times> message) list"

text \<open>
  \<^verbatim>\<open>socket.on('makeMove')\<close> for the socket \<open>sid\<close> with the payload
  \<^verbatim>\<open>{ roomId, position }\<close>, at clock \<open>now\<close> (milliseconds). The handler has no
  \<^verbatim>\<open>try\<close>: an exception thrown by \<^verbatim>\<open>game.makeMove\<close> leaves it, before anything is
  emitted or changed.
\<close>

definition onMakeMove ::
  "socketId \<Rightarrow> roomId \<Rightarrow> position \<Rightarrow> real \<Rightarrow> server \<Rightarrow> outcome \<times> server" where
  "onMakeMove sid rid pos now s =
     (case (games s rid, players s sid) of
        (Some gm, Some pl) \<Rightarrow>
          if currentTurn gm \<noteq> psymbol pl
          then (Inr [(ToSocket sid, Error ''Not your turn'')], s)
          else
            (case makeMove pos (psymbol pl) gm of
               (Inl e, _) \<Rightarrow> (Inl e, s)
             | (Inr True, gm') \<Rightarrow>
                 let s1 = s\<lparr> games := (games s)(rid \<mapsto> gm') \<rparr>;
                     upd = (ToRoom rid, GameUpdate (getState gm'))
                 in if winner gm' \<noteq> None \<or> isDraw gm'
                    then
                      let gameDuration = (now - startTime gm') / 1000
                      in (Inr [upd],
                          s1\<lparr> metrics := updateMetrics gameDuration (metrics s1),
                              timers := timers s1 @
                                [\<lparr> t_roomId = rid, t_socketId = sid,
                                   t_symbol = psymbol pl, t_game = gm',
                                   t_gameDuration = gameDuration \<rparr>] \<rparr>)
                    else (Inr [upd], s1)
             | (Inr False, _) \<Rightarrow> (Inr [(ToSocket sid, Error ''Invalid move'')], s))
      | _ \<Rightarrow> (Inr [(ToSocket sid, Error ''Game not found'')], s))"

text \<open>\<^verbatim>\<open>game.players[symbol === 'X' ? 'O' : 'X']\<close>.\<close>

definition opponentOf :: "game \<Rightarrow> symbol \<Rightarrow> socketId" where
  "opponentOf g role = (if role = SymX then playerO g else playerX g)"

text \<open>
  The deferred callback runs: the pending callbacks all wait the same 100 ms, so the
  oldest one runs first.
\<close>

definition onTimeout :: "server \<Rightarrow> (target \<times> message) list \<times> server" where
  "onTimeout s =
     (case timers s of
        [] \<Rightarrow> ([], s)
      | t # ts \<Rightarrow>
          let gm = t_game t;
              ps1 = (players s)(t_socketId t := None);
              ps2 = ps1(opponentOf gm (t_symbol t) := None)
          in ([(ToRoom (t_roomId t),
                GameEnd (winner gm) (isDraw gm) (t_gameDuration t) (moveCount gm))],
              s\<lparr> timers := ts,
                 games := (games s)(t_roomId t := None),
                 players := ps2 \<rparr>))"

text \<open>\<^verbatim>\<open>socket.on('disconnect')\<close> for the socket \<open>sid\<close>.\<close>

definition onDisconnect :: "socketId \<Rightarrow> server \<Rightarrow> (target \<times> message) list \<times> server" where
  "onDisconnect sid s =
     (let s1 = s\<lparr> waitingPlayers := remove1 sid (waitingPlayers s) \<rparr>;
          gone = s1\<lparr> players := (players s1)(sid := None) \<rparr>
      in case players s1 sid of
           Some pl \<Rightarrow>
             if proomId pl \<noteq> []
             then
               (case games s1 (proomId pl) of
                  Some gm \<Rightarrow>
                    let opponentId = opponentOf gm (psymbol pl);
                        m = metrics s1
                    in ([(ToSocket opponentId, OpponentDisconnected)],
                        s1\<lparr> games := (games s1)(proomId pl := None),
                            metrics := m\<lparr> activeGames := activeGames m - 1 \<rparr>,
                            players := ((players s1)(opponentId := None))(sid := None) \<rparr>)
                | None \<Rightarrow> ([], gone))
             else ([], gone)
         | None \<Rightarrow> ([], gone))"

text \<open>The events the server processes, one at a time and each to completion.\<close>

datatype event =
    FindGame socketId roomId real
  | MakeMove socketId roomId position real
  | Disconnect socketId
  | Timeout

text \<open>A handler that throws nothing ends with its messages.\<close>

definition emitted :: "(target \<times> message) list \<times> server \<Rightarrow> outcome \<times> server" where
  "emitted r = (Inr (fst r), snd r)"

fun handle :: "event \<Rightarrow> server \<Rightarrow> outcome \<times> server" where
  "handle (FindGame sid rid now) s = emitted (onFindGame sid rid now s)"
| "handle (MakeMove sid rid pos now) s = onMakeMove sid rid pos now s"
| "handle (Disconnect sid) s = emitted (onDisconnect sid s)"
| "handle Timeout s = emitted (onTimeout s)"

text \<open>
  The server state when the processing of a list of events ends. Nothing in server.js
  catches an exception, so one that leaves a handler ends the processing there: the
  events after it are not handled.
\<close>

fun run :: "event list \<Rightarrow> server \<Rightarrow> server" where
  "run [] s = s"
| "run (e # es) s =
     (case handle e s of
        (Inl _, s') \<Rightarrow> s'
      | (Inr _, s') \<Rightarrow> run es s')"

section \<open>Notions of the specification\<close>

text \<open>
  A line is won by marker \<open>m\<close> when all three of its cells hold \<open>m\<close> (the specification's
  wording, used to state what \<open>checkWinner\<close> computes).
\<close>

definition lineWon :: "cell list \<Rightarrow> symbol \<Rightarrow> nat \<times> nat \<times> nat \<Rightarrow> bool" where
  "lineWon b m l =
     (case l of (i, j, k) \<Rightarrow> cellAt b i = Mark m \<and> cellAt b j = Mark m \<and> cellAt b k = Mark m)"

text \<open>The number of non-empty cells of a board.\<close>

definition occupiedCount :: "cell list \<Rightarrow> nat" where
  "occupiedCount b = length (filter (\<lambda>c. c \<noteq> Null) b)"

text \<open>What every game reached from a fresh one satisfies.\<close>

definition gameInv :: "game \<Rightarrow> bool" where
  "gameInv g \<longleftrightarrow>
     length (board g) = 9 \<and> moveCount g = occupiedCount (board g)
     \<and> currentTurn g = (if even (moveCount g) then SymX else SymO)
     \<and> \<not> (winner g \<noteq> None \<and> isDraw g)"

section \<open>Example games\<close>

text \<open>
  A fresh game, the game after X took cells 0 and 1 and O took cells 3 and 4, and the
  game after X then takes cell 2 and completes the top row.
\<close>

definition exampleGame :: game where
  "exampleGame = newGame ''game_1'' ''s2'' ''s1'' 0"

definition beforeWin :: game where
  "beforeWin =
     playMoves [(Num 0, SymX), (Num 3, SymO), (Num 1, SymX), (Num 4, SymO)] exampleGame"

definition afterWin :: game where
  "afterWin = snd (makeMove (Num 2) SymX beforeWin)"

text \<open>A full game without a won line, and the five moves of the game X wins.\<close>

definition drawMoves :: "(position \<times> symbol) list" where
  "drawMoves =
     [(Num 0, SymX), (Num 1, SymO), (Num 2, SymX), (Num 4, SymO), (Num 3, SymX),
      (Num 5, SymO), (Num 7, SymX), (Num 6, SymO), (Num 8, SymX)]"

definition winMoves :: "(position \<times> symbol) list" where
  "winMoves = [(Num 0, SymX), (Num 3, SymO), (Num 1, SymX), (Num 4, SymO), (Num 2, SymX)]"

section \<open>Example runs of the server\<close>

text \<open>
  Socket \<open>s1\<close> asks for a game and waits, socket \<open>s2\<close> asks and is matched with it:
  \<open>game_1\<close> starts with \<open>s2\<close> as X and \<open>s1\<close> as O. Then the two play the four opening
  moves of the example game, and X completes the top row at clock \<open>now\<close>. In
  \<open>twoGames\<close> the sockets \<open>s3\<close> and \<open>s4\<close> have started \<open>game_2\<close> as well, before any
  move.
\<close>

definition startEvents :: "event list" where
  "startEvents = [FindGame ''s1'' ''game_0'' 0, FindGame ''s2'' ''game_1'' 0]"

definition afterStart :: server where
  "afterStart = run startEvents initial"

definition fourEvents :: "event list" where
  "fourEvents =
     [MakeMove ''s2'' ''game_1'' (Num 0) 1000, MakeMove ''s1'' ''game_1'' (Num 3) 2000,
      MakeMove ''s2'' ''game_1'' (Num 1) 3000, MakeMove ''s1'' ''game_1'' (Num 4) 4000]"

definition winEvents :: "real \<Rightarrow> event list" where
  "winEvents now = fourEvents @ [MakeMove ''s2'' ''game_1'' (Num 2) now]"

definition afterWinMove :: server where
  "afterWinMove = run (winEvents 5000) afterStart"


definition twoGames :: server where
  "twoGames = run [FindGame ''s3'' ''game_0'' 0, FindGame ''s4'' ''game_2'' 0] afterStart"

section \<open>Properties of the game object\<close>

lemma checkWinner_keeps:
  "board (checkWinner g) = board g"
  "moveCount (checkWinner g) = moveCount g"
  "currentTurn (checkWinner g) = currentTurn g"
  by (simp_all add: checkWinner_def split: option.splits)

lemma makeMove_throws:
  "fst (makeMove p s g) = Inl e \<longleftrightarrow> p = Unconvertible \<and> e = TypeError"
  by (cases e) (auto simp: makeMove_def getCell_def setCell_def Let_def)

lemma makeMove_thrown:
  "makeMove Unconvertible s g = (Inl TypeError, g)"
  by (simp add: makeMove_def getCell_def)

lemma makeMove_rejected:
  "p \<noteq> Unconvertible \<Longrightarrow>
     getCell (board g) p \<noteq> Inr Null \<or> winner g \<noteq> None \<or> isDraw g \<Longrightarrow>
     makeMove p s g = (Inr False, g)"
  by (auto simp: makeMove_def getCell_def)

lemma makeMove_terminal:
  "winner g \<noteq> None \<or> isDraw g \<Longrightarrow> snd (makeMove p s g) = g"
  by (cases "p = Unconvertible") (auto simp: makeMove_thrown makeMove_rejected)

lemma getCell_Null:
  "getCell b p = Inr Null \<Longrightarrow>
     p \<noteq> Unconvertible \<and> (\<exists>i. toIndex p = Some i \<and> i < length b \<and> b ! i = Null)"
  by (auto simp: getCell_def cellAt_def split: option.splits if_splits)

lemma setCell_in_range:
  "p \<noteq> Unconvertible \<Longrightarrow> toIndex p = Some i \<Longrightarrow> i < length b \<Longrightarrow>
     setCell b p s = Inr (b[i := Mark s])"
  by (simp add: setCell_def)

lemma makeMove_accepts_iff:
  "fst (makeMove pos role gm) = Inr True \<longleftrightarrow>
     getCell (board gm) pos = Inr Null \<and> winner gm = None \<and> \<not> isDraw gm"
  by (auto simp: makeMove_def getCell_def setCell_def Let_def split: sum.splits)

lemma makeMove_accepted:
  assumes "fst (makeMove p s g) = Inr True"
  shows "\<exists>i. toIndex p = Some i \<and> i < length (board g) \<and> board g ! i = Null
           \<and> board (snd (makeMove p s g)) = (board g)[i := Mark s]
           \<and> moveCount (snd (makeMove p s g)) = moveCount g + 1
           \<and> currentTurn (snd (makeMove p s g)) = flipTurn (currentTurn g)
           \<and> winner g = None \<and> \<not> isDraw g"
proof -
  from assms have ok: "getCell (board g) p = Inr Null" "winner g = None" "\<not> isDraw g"
    by (simp_all add: makeMove_accepts_iff)
  from getCell_Null [OF ok(1)] obtain i where
    i: "p \<noteq> Unconvertible" "toIndex p = Some i" "i < length (board g)" "board g ! i = Null"
    by blast
  show ?thesis using ok i
    by (simp add: makeMove_def Let_def checkWinner_keeps setCell_in_range)
qed

lemma makeMove_cases:
  "snd (makeMove p s g) = g \<or> fst (makeMove p s g) = Inr True"
  by (auto simp: makeMove_def Let_def split: sum.splits)

lemma line_test:
  "(truthy c \<and> c = c2 \<and> c = c3) = (\<exists>m. c = Mark m \<and> c2 = Mark m \<and> c3 = Mark m)"
  by (cases c) auto

lemma checkLoop_hit:
  "lineWon b m l \<Longrightarrow> checkLoop b (l # ps) = Some m"
  by (cases l) (auto simp: lineWon_def)

lemma checkLoop_miss:
  "\<forall>m. \<not> lineWon b m l \<Longrightarrow> checkLoop b (l # ps) = checkLoop b ps"
proof -
  assume no: "\<forall>m. \<not> lineWon b m l"
  obtain i j k where l: "l = (i, j, k)" by (cases l) auto
  have "\<not> (truthy (cellAt b i) \<and> cellAt b i = cellAt b j \<and> cellAt b i = cellAt b k)"
    unfolding line_test using no by (simp add: l lineWon_def)
  then show ?thesis unfolding l checkLoop.simps by (rule if_not_P)
qed

lemma checkLoop_None:
  "checkLoop b ps = None \<longleftrightarrow> (\<forall>l\<in>set ps. \<forall>m. \<not> lineWon b m l)"
proof (induction ps)
  case Nil
  show ?case by simp
next
  case (Cons l ps)
  obtain i j k where l: "l = (i, j, k)" by (cases l) auto
  show ?case
  proof (cases "\<exists>m. lineWon b m l")
    case True
    then obtain m where w: "lineWon b m l" ..
    from checkLoop_hit [OF w] w show ?thesis by auto
  next
    case False
    then have "checkLoop b (l # ps) = checkLoop b ps" by (simp add: checkLoop_miss)
    with False Cons.IH show ?thesis by auto
  qed
qed

lemma checkLoop_Some:
  "checkLoop b ps = Some m \<longleftrightarrow>
     (\<exists>n<length ps. lineWon b m (ps ! n) \<and> (\<forall>n'<n. \<forall>m'. \<not> lineWon b m' (ps ! n')))"
proof (induction ps)
  case Nil
  show ?case by simp
next
  case (Cons l ps)
  obtain i j k where l: "l = (i, j, k)" by (cases l) auto
  show ?case
  proof (cases "\<exists>m'. lineWon b m' l")
    case True
    then obtain m' where w: "lineWon b m' l" ..
    then have eq: "checkLoop b (l # ps) = Some m'" by (rule checkLoop_hit)
    have only: "\<And>m''. lineWon b m'' l \<Longrightarrow> m'' = m'" using w by (auto simp: l lineWon_def)
    show ?thesis
    proof
      assume "checkLoop b (l # ps) = Some m"
      with eq have "m = m'" by simp
      with w have "lineWon b m ((l # ps) ! 0) \<and> (\<forall>n'<0. \<forall>m'. \<not> lineWon b m' ((l # ps) ! n'))"
        by simp
      then show "\<exists>n<length (l # ps). lineWon b m ((l # ps) ! n)
            \<and> (\<forall>n'<n. \<forall>m'. \<not> lineWon b m' ((l # ps) ! n'))" by blast
    next
      assume "\<exists>n<length (l # ps). lineWon b m ((l # ps) ! n)
            \<and> (\<forall>n'<n. \<forall>m'. \<not> lineWon b m' ((l # ps) ! n'))"
      then obtain n where n: "lineWon b m ((l # ps) ! n)"
        "\<forall>n'<n. \<forall>m'. \<not> lineWon b m' ((l # ps) ! n')" by blast
      have "n = 0"
      proof (rule ccontr)
        assume "n \<noteq> 0"
        then have "0 < n" by simp
        with n(2) have "\<not> lineWon b m' ((l # ps) ! 0)" by blast
        with w show False by simp
      qed
      with n(1) have "lineWon b m l" by simp
      with only eq show "checkLoop b (l # ps) = Some m" by simp
    qed
  next
    case False
    then have eq: "checkLoop b (l # ps) = checkLoop b ps" by (simp add: checkLoop_miss)
    show ?thesis
    proof
      assume "checkLoop b (l # ps) = Some m"
      with eq Cons.IH obtain n where n: "n < length ps" "lineWon b m (ps ! n)"
        "\<forall>n'<n. \<forall>m'. \<not> lineWon b m' (ps ! n')" by auto
      have "\<forall>n'<Suc n. \<forall>m'. \<not> lineWon b m' ((l # ps) ! n')"
      proof (intro allI impI)
        fix n' m' assume "n' < Suc n"
        then show "\<not> lineWon b m' ((l # ps) ! n')"
          using False n(3) by (cases n') auto
      qed
      with n(1,2) have "Suc n < length (l # ps) \<and> lineWon b m ((l # ps) ! Suc n)
          \<and> (\<forall>n'<Suc n. \<forall>m'. \<not> lineWon b m' ((l # ps) ! n'))" by simp
      then show "\<exists>n<length (l # ps). lineWon b m ((l # ps) ! n)
            \<and> (\<forall>n'<n. \<forall>m'. \<not> lineWon b m' ((l # ps) ! n'))" by blast
    next
      assume "\<exists>n<length (l # ps). lineWon b m ((l # ps) ! n)
            \<and> (\<forall>n'<n. \<forall>m'. \<not> lineWon b m' ((l # ps) ! n'))"
      then obtain n where n: "n < length (l # ps)" "lineWon b m ((l # ps) ! n)"
        "\<forall>n'<n. \<forall>m'. \<not> lineWon b m' ((l # ps) ! n')" by blast
      from n(2) False obtain k where k: "n = Suc k" by (cases n) auto
      have "\<forall>n'<k. \<forall>m'. \<not> lineWon b m' (ps ! n')"
      proof (intro allI impI)
        fix n' m' assume "n' < k"
        then have "Suc n' < n" using k by simp
        with n(3) have "\<not> lineWon b m' ((l # ps) ! Suc n')" by blast
        then show "\<not> lineWon b m' (ps ! n')" by simp
      qed
      with n(1,2) k have "\<exists>n<length ps. lineWon b m (ps ! n)
          \<and> (\<forall>n'<n. \<forall>m'. \<not> lineWon b m' (ps ! n'))" by auto
      with Cons.IH eq show "checkLoop b (l # ps) = Some m" by simp
    qed
  qed
qed

lemma makeMove_flags:
  assumes "fst (makeMove p s g) = Inr True"
  shows "winner (snd (makeMove p s g)) = checkLoop (board (snd (makeMove p s g))) winPatterns"
    and "isDraw (snd (makeMove p s g)) \<longleftrightarrow>
           checkLoop (board (snd (makeMove p s g))) winPatterns = None
           \<and> moveCount (snd (makeMove p s g)) = 9"
proof -
  from assms have ok: "getCell (board g) p = Inr Null" "winner g = None" "\<not> isDraw g"
    by (simp_all add: makeMove_accepts_iff)
  from getCell_Null [OF ok(1)] obtain i where
    i: "p \<noteq> Unconvertible" "toIndex p = Some i" "i < length (board g)" by blast
  note set = setCell_in_range [OF i, of s]
  show "winner (snd (makeMove p s g)) = checkLoop (board (snd (makeMove p s g))) winPatterns"
    using ok set by (simp add: makeMove_def Let_def checkWinner_def split: option.splits)
  show "isDraw (snd (makeMove p s g)) \<longleftrightarrow>
           checkLoop (board (snd (makeMove p s g))) winPatterns = None
           \<and> moveCount (snd (makeMove p s g)) = 9"
    using ok set by (simp add: makeMove_def Let_def checkWinner_def split: option.splits)
qed

lemma winPatterns_lines:
  "winPatterns =
     map (\<lambda>r. (3 * r, 3 * r + 1, 3 * r + 2)) [0..<3] @ map (\<lambda>c. (c, c + 3, c + 6)) [0..<3]
       @ [(0, 4, 8), (2, 4, 6)]"
  by (simp add: winPatterns_def upt_rec)

lemmas eval_defs =
  newGame_def makeMove_def getCell_def setCell_def cellAt_def checkWinner_def
  winPatterns_def flipTurn_def Let_def numeral_eq_Suc

lemma beforeWin_value:
  "beforeWin =
     \<lparr> roomId = ''game_1'',
       board = [Mark SymX, Mark SymX, Null, Mark SymO, Mark SymO, Null, Null, Null, Null],
       playerX = ''s2'', playerO = ''s1'', currentTurn = SymX, winner = None,
       isDraw = False, moveCount = 4, startTime = 0 \<rparr>"
  by (simp add: beforeWin_def exampleGame_def eval_defs)

lemma afterWin_value:
  "makeMove (Num 2) SymX beforeWin = (Inr True, afterWin)"
  "afterWin =
     \<lparr> roomId = ''game_1'',
       board = [Mark SymX, Mark SymX, Mark SymX, Mark SymO, Mark SymO, Null, Null, Null, Null],
       playerX = ''s2'', playerO = ''s1'', currentTurn = SymO, winner = Some SymX,
       isDraw = False, moveCount = 5, startTime = 0 \<rparr>"
  by (simp_all add: afterWin_def beforeWin_value eval_defs)

lemma occupiedCount_update:
  "i < length b \<Longrightarrow> b ! i = Null \<Longrightarrow> occupiedCount (b[i := Mark s]) = Suc (occupiedCount b)"
proof (induction b arbitrary: i)
  case Nil
  then show ?case by simp
next
  case (Cons c b)
  show ?case
  proof (cases i)
    case 0
    with Cons.prems show ?thesis by (simp add: occupiedCount_def)
  next
    case (Suc j)
    with Cons.prems have "occupiedCount (b[j := Mark s]) = Suc (occupiedCount b)"
      by (intro Cons.IH) auto
    with Suc show ?thesis by (simp add: occupiedCount_def)
  qed
qed

lemma gameInv_newGame: "gameInv (newGame rid p1 p2 now)"
  by (simp add: gameInv_def newGame_def occupiedCount_def)

lemma gameInv_makeMove:
  assumes inv: "gameInv g"
  shows "gameInv (snd (makeMove p s g))"
proof (cases "fst (makeMove p s g) = Inr True")
  case False
  with makeMove_cases [of p s g] inv show ?thesis by auto
next
  case True
  from makeMove_accepted [OF True] obtain i where
    i: "i < length (board g)" "board g ! i = Null"
       "board (snd (makeMove p s g)) = (board g)[i := Mark s]"
       "moveCount (snd (makeMove p s g)) = moveCount g + 1"
       "currentTurn (snd (makeMove p s g)) = flipTurn (currentTurn g)"
    by blast
  have excl: "\<not> (winner (snd (makeMove p s g)) \<noteq> None \<and> isDraw (snd (makeMove p s g)))"
    using makeMove_flags [OF True] by auto
  have cnt: "moveCount (snd (makeMove p s g)) = occupiedCount (board (snd (makeMove p s g)))"
    using i inv by (simp add: gameInv_def occupiedCount_update)
  have len: "length (board (snd (makeMove p s g))) = 9"
    using i inv by (simp add: gameInv_def)
  have turn: "currentTurn (snd (makeMove p s g)) =
      (if even (moveCount (snd (makeMove p s g))) then SymX else SymO)"
    using i inv by (simp add: gameInv_def flipTurn_def)
  show ?thesis unfolding gameInv_def using excl cnt len turn by blast
qed

lemma gameInv_playMoves: "gameInv g \<Longrightarrow> gameInv (playMoves ms g)"
  by (induction ms arbitrary: g) (auto simp: gameInv_makeMove)

lemma terminal_frozen:
  "winner g \<noteq> None \<or> isDraw g \<Longrightarrow> playMoves ms g = g"
  by (induction ms) (auto simp: makeMove_terminal)

lemma flipTurn_neq: "flipTurn t \<noteq> t" "t \<noteq> flipTurn t"
  by (simp_all add: flipTurn_def)



lemma winMoves_value: "playMoves winMoves exampleGame = afterWin"
  by (simp add: winMoves_def afterWin_def beforeWin_def)

lemma drawMoves_value:
  "playMoves drawMoves exampleGame =
     \<lparr> roomId = ''game_1'',
       board = [Mark SymX, Mark SymO, Mark SymX, Mark SymX, Mark SymO, Mark SymO,
                Mark SymO, Mark SymX, Mark SymX],
       playerX = ''s2'', playerO = ''s1'', currentTurn = SymO, winner = None,
       isDraw = True, moveCount = 9, startTime = 0 \<rparr>"
  by (simp add: drawMoves_def exampleGame_def eval_defs)

section \<open>The claims about the game object\<close>

text \<open>
  Claim C1, as amended. \<open>makeMove\<close> flips \<open>currentTurn\<close> after every accepted move,
  whether or not the move set the winner or the draw flag: the turn recorded after an
  accepted move is always the other role than the one recorded before it.
\<close>

theorem makeMove_flips_turn_even_when_terminal:
  assumes "makeMove p s g = (Inr True, g')"
  shows "currentTurn g' = flipTurn (currentTurn g) \<and> currentTurn g' \<noteq> currentTurn g"
proof -
  from assms have "fst (makeMove p s g) = Inr True" and g': "g' = snd (makeMove p s g)" by simp_all
  from makeMove_accepted [OF this(1)] g' show ?thesis by (auto simp: flipTurn_neq)
qed

theorem makeMove_flips_turn_even_when_terminal_witness:
  "makeMove (Num 2) SymX beforeWin = (Inr True, afterWin) \<and> winner afterWin = Some SymX
     \<and> currentTurn afterWin = flipTurn (currentTurn beforeWin)
     \<and> currentTurn afterWin \<noteq> currentTurn beforeWin"
  using makeMove_flips_turn_even_when_terminal [OF afterWin_value(1)]
  by (simp add: afterWin_value)

text \<open>
  The claim as written fails: X completes the top row, the winner is set, and the
  recorded turn has still moved on from X to O.
\<close>

theorem turn_unchanged_on_win_counterexample:
  "fst (makeMove (Num 2) SymX beforeWin) = Inr True
     \<and> winner (snd (makeMove (Num 2) SymX beforeWin)) = Some SymX
     \<and> currentTurn beforeWin = SymX
     \<and> currentTurn (snd (makeMove (Num 2) SymX beforeWin)) = SymO"
  using afterWin_value(1) by (simp add: afterWin_value(2) beforeWin_value)

text \<open>
  Claim C7. After any run of \<open>makeMove\<close> calls on a fresh game (in particular after any
  run of valid alternating moves) the move counter is the number of non-empty cells and
  the turn is X after an even and O after an odd number of accepted moves; every further
  accepted move hands the turn to the other role, adds one to the counter and keeps the
  counter equal to the number of non-empty cells.
\<close>

theorem turn_alternates_and_count_matches:
  "let g = playMoves ms (newGame rid p1 p2 now) in
     moveCount g = occupiedCount (board g)
     \<and> currentTurn g = (if even (moveCount g) then SymX else SymO)
     \<and> (\<forall>p s. fst (makeMove p s g) = Inr True \<longrightarrow>
           currentTurn (snd (makeMove p s g)) = flipTurn (currentTurn g)
           \<and> currentTurn (snd (makeMove p s g)) \<noteq> currentTurn g
           \<and> moveCount (snd (makeMove p s g)) = Suc (moveCount g)
           \<and> moveCount (snd (makeMove p s g)) = occupiedCount (board (snd (makeMove p s g))))"
proof -
  define g where "g = playMoves ms (newGame rid p1 p2 now)"
  have inv: "gameInv g" unfolding g_def by (intro gameInv_playMoves gameInv_newGame)
  have step: "currentTurn (snd (makeMove p s g)) = flipTurn (currentTurn g)
           \<and> currentTurn (snd (makeMove p s g)) \<noteq> currentTurn g
           \<and> moveCount (snd (makeMove p s g)) = Suc (moveCount g)
           \<and> moveCount (snd (makeMove p s g)) = occupiedCount (board (snd (makeMove p s g)))"
    if ok: "fst (makeMove p s g) = Inr True" for p s
  proof -
    from gameInv_makeMove [OF inv, of p s]
    have "moveCount (snd (makeMove p s g)) = occupiedCount (board (snd (makeMove p s g)))"
      by (simp add: gameInv_def)
    with makeMove_accepted [OF ok] show ?thesis by (auto simp: flipTurn_neq)
  qed
  from inv step show ?thesis unfolding g_def [symmetric] Let_def gameInv_def by blast
qed

theorem turn_alternates_and_count_matches_witness:
  "moveCount beforeWin = occupiedCount (board beforeWin)
     \<and> fst (makeMove (Num 2) SymX beforeWin) = Inr True
     \<and> currentTurn beforeWin = SymX
     \<and> currentTurn (snd (makeMove (Num 2) SymX beforeWin)) = SymO
     \<and> moveCount (snd (makeMove (Num 2) SymX beforeWin)) = 5
     \<and> occupiedCount (board (snd (makeMove (Num 2) SymX beforeWin))) = 5"
proof -
  have ok: "fst (makeMove (Num 2) SymX beforeWin) = Inr True" by (simp add: afterWin_value(1))
  from turn_alternates_and_count_matches
    [of "[(Num 0, SymX), (Num 3, SymO), (Num 1, SymX), (Num 4, SymO)]" "''game_1''" "''s2''" "''s1''" 0]
  have "moveCount beforeWin = occupiedCount (board beforeWin)
     \<and> (\<forall>p s. fst (makeMove p s beforeWin) = Inr True \<longrightarrow>
           currentTurn (snd (makeMove p s beforeWin)) = flipTurn (currentTurn beforeWin)
           \<and> moveCount (snd (makeMove p s beforeWin)) = Suc (moveCount beforeWin)
           \<and> moveCount (snd (makeMove p s beforeWin))
               = occupiedCount (board (snd (makeMove p s beforeWin))))"
    unfolding Let_def beforeWin_def exampleGame_def by blast
  with ok have "moveCount beforeWin = occupiedCount (board beforeWin)
     \<and> currentTurn (snd (makeMove (Num 2) SymX beforeWin)) = flipTurn (currentTurn beforeWin)
     \<and> moveCount (snd (makeMove (Num 2) SymX beforeWin)) = Suc (moveCount beforeWin)
     \<and> moveCount (snd (makeMove (Num 2) SymX beforeWin))
               = occupiedCount (board (snd (makeMove (Num 2) SymX beforeWin)))" by blast
  with ok show ?thesis by (simp add: beforeWin_value flipTurn_def)
qed

text \<open>
  Claim C8. After an accepted move the winner is the marker \<open>m\<close> exactly when some line
  of \<open>winPatterns\<close> is won by \<open>m\<close> and no line before it in the list is won by any
  marker; the draw flag is set exactly when no line is won and the move counter is 9;
  and \<open>winPatterns\<close> lists the three rows, the three columns and the two diagonals of
  the 3 by 3 grid, in that order.
\<close>

theorem checkWinner_first_line_or_draw:
  assumes "makeMove p s g = (Inr True, g')"
  shows "(winner g' = Some m \<longleftrightarrow>
            (\<exists>n<length winPatterns. lineWon (board g') m (winPatterns ! n)
               \<and> (\<forall>n'<n. \<forall>m'. \<not> lineWon (board g') m' (winPatterns ! n'))))
         \<and> (isDraw g' \<longleftrightarrow>
              (\<forall>l\<in>set winPatterns. \<forall>m'. \<not> lineWon (board g') m' l) \<and> moveCount g' = 9)
         \<and> winPatterns =
              map (\<lambda>r. (3 * r, 3 * r + 1, 3 * r + 2)) [0..<3]
                @ map (\<lambda>c. (c, c + 3, c + 6)) [0..<3] @ [(0, 4, 8), (2, 4, 6)]"
proof -
  from assms have ok: "fst (makeMove p s g) = Inr True" and g': "snd (makeMove p s g) = g'" by simp_all
  from makeMove_flags [OF ok] have
    w: "winner g' = checkLoop (board g') winPatterns" and
    d: "isDraw g' \<longleftrightarrow> checkLoop (board g') winPatterns = None \<and> moveCount g' = 9"
    unfolding g' by blast+
  have 1: "winner g' = Some m \<longleftrightarrow>
            (\<exists>n<length winPatterns. lineWon (board g') m (winPatterns ! n)
               \<and> (\<forall>n'<n. \<forall>m'. \<not> lineWon (board g') m' (winPatterns ! n')))"
    unfolding w by (rule checkLoop_Some)
  have 2: "isDraw g' \<longleftrightarrow>
              (\<forall>l\<in>set winPatterns. \<forall>m'. \<not> lineWon (board g') m' l) \<and> moveCount g' = 9"
    unfolding d checkLoop_None ..
  from 1 2 winPatterns_lines show ?thesis by blast
qed

theorem checkWinner_first_line_or_draw_witness:
  "makeMove (Num 2) SymX beforeWin = (Inr True, afterWin)
     \<and> winner afterWin = Some SymX
     \<and> (\<exists>n<length winPatterns. lineWon (board afterWin) SymX (winPatterns ! n)
           \<and> (\<forall>n'<n. \<forall>m'. \<not> lineWon (board afterWin) m' (winPatterns ! n')))
     \<and> \<not> isDraw afterWin"
proof -
  have w: "winner afterWin = Some SymX" and d: "\<not> isDraw afterWin"
    by (simp_all add: afterWin_value(2))
  from checkWinner_first_line_or_draw [OF afterWin_value(1), of SymX] w d afterWin_value(1)
  show ?thesis by blast
qed

text \<open>
  Claim C9. For a game \<open>g1\<close> reached from a fresh one by any run of \<open>makeMove\<close> calls
  (accepted or rejected) and any later run leading on to \<open>g2\<close>: the winner and the draw
  flag are never both set; if the winner is set in \<open>g1\<close> the draw flag is not set in
  \<open>g2\<close> and the winner is the same; if the draw flag is set in \<open>g1\<close> no winner is set
  in \<open>g2\<close>.
\<close>

theorem winner_and_draw_exclusive:
  "let g1 = playMoves ms1 (newGame rid p1 p2 now); g2 = playMoves ms2 g1 in
     \<not> (winner g1 \<noteq> None \<and> isDraw g1)
     \<and> (winner g1 \<noteq> None \<longrightarrow> \<not> isDraw g2 \<and> winner g2 = winner g1)
     \<and> (isDraw g1 \<longrightarrow> winner g2 = None \<and> isDraw g2)"
proof -
  define g1 where "g1 = playMoves ms1 (newGame rid p1 p2 now)"
  have "gameInv g1" unfolding g1_def by (intro gameInv_playMoves gameInv_newGame)
  then have excl: "\<not> (winner g1 \<noteq> None \<and> isDraw g1)" by (simp add: gameInv_def)
  have a: "\<not> isDraw (playMoves ms2 g1) \<and> winner (playMoves ms2 g1) = winner g1"
    if "winner g1 \<noteq> None"
    using that excl terminal_frozen [of g1 ms2] by auto
  have b: "winner (playMoves ms2 g1) = None \<and> isDraw (playMoves ms2 g1)" if "isDraw g1"
    using that excl terminal_frozen [of g1 ms2] by auto
  from excl a b show ?thesis unfolding Let_def g1_def [symmetric] by blast
qed


theorem winner_and_draw_exclusive_witness:
  "(winner (playMoves winMoves exampleGame) = Some SymX
      \<and> \<not> isDraw (playMoves [(Num 5, SymO)] (playMoves winMoves exampleGame))
      \<and> winner (playMoves [(Num 5, SymO)] (playMoves winMoves exampleGame)) = Some SymX)
   \<and> (isDraw (playMoves drawMoves exampleGame)
      \<and> winner (playMoves [(Num 5, SymO)] (playMoves drawMoves exampleGame)) = None
      \<and> isDraw (playMoves [(Num 5, SymO)] (playMoves drawMoves exampleGame)))"
proof -
  have w: "winner (playMoves winMoves exampleGame) = Some SymX"
    by (simp add: winMoves_value afterWin_value(2))
  have d: "isDraw (playMoves drawMoves exampleGame)"
    by (simp add: drawMoves_value)
  from winner_and_draw_exclusive
    [of winMoves "''game_1''" "''s2''" "''s1''" 0 "[(Num 5, SymO)]"] w
  have 1: "\<not> isDraw (playMoves [(Num 5, SymO)] (playMoves winMoves exampleGame))
      \<and> winner (playMoves [(Num 5, SymO)] (playMoves winMoves exampleGame)) = Some SymX"
    unfolding Let_def exampleGame_def by simp
  from winner_and_draw_exclusive
    [of drawMoves "''game_1''" "''s2''" "''s1''" 0 "[(Num 5, SymO)]"] d
  have 2: "winner (playMoves [(Num 5, SymO)] (playMoves drawMoves exampleGame)) = None
      \<and> isDraw (playMoves [(Num 5, SymO)] (playMoves drawMoves exampleGame))"
    unfolding Let_def exampleGame_def by simp
  from w d 1 2 show ?thesis by blast
qed



lemma makeMove_returns:
  "p \<noteq> Unconvertible \<Longrightarrow> \<exists>ok. fst (makeMove p s g) = Inr ok"
  by (auto simp: makeMove_def getCell_def setCell_def Let_def)




section \<open>Properties of the event handlers\<close>

lemmas handler_defs =
  onFindGame_def onMakeMove_def onDisconnect_def onTimeout_def updateMetrics_def
  opponentOf_def getState_def initial_def emitted_def Let_def

lemma afterStart_value:
  "afterStart =
     \<lparr> games = [''game_1'' \<mapsto> exampleGame],
       players = [''s2'' \<mapsto> \<lparr> proomId = ''game_1'', psymbol = SymX, pname = ''Player1'' \<rparr>,
                  ''s1'' \<mapsto> \<lparr> proomId = ''game_1'', psymbol = SymO, pname = ''Player2'' \<rparr>],
       waitingPlayers = [],
       metrics = \<lparr> totalGames = 1, activeGames = 1, totalConnections = 0,
                   peakConnections = 0, averageGameDuration = 0 \<rparr>,
       timers = [] \<rparr>"
  by (simp add: afterStart_def startEvents_def handler_defs exampleGame_def)



lemma twoGames_value:
  "twoGames =
     \<lparr> games = [''game_1'' \<mapsto> exampleGame, ''game_2'' \<mapsto> newGame ''game_2'' ''s4'' ''s3'' 0],
       players = [''s2'' \<mapsto> \<lparr> proomId = ''game_1'', psymbol = SymX, pname = ''Player1'' \<rparr>,
                  ''s1'' \<mapsto> \<lparr> proomId = ''game_1'', psymbol = SymO, pname = ''Player2'' \<rparr>,
                  ''s4'' \<mapsto> \<lparr> proomId = ''game_2'', psymbol = SymX, pname = ''Player1'' \<rparr>,
                  ''s3'' \<mapsto> \<lparr> proomId = ''game_2'', psymbol = SymO, pname = ''Player2'' \<rparr>],
       waitingPlayers = [],
       metrics = \<lparr> totalGames = 2, activeGames = 2, totalConnections = 0,
                   peakConnections = 0, averageGameDuration = 0 \<rparr>,
       timers = [] \<rparr>"
  by (simp add: twoGames_def afterStart_value handler_defs)

lemma onMakeMove_returns:
  assumes key: "pos \<noteq> Unconvertible"
  shows "\<exists>ms. fst (onMakeMove sid rid pos now s) = Inr ms"
proof (cases "games s rid")
  case None
  then show ?thesis by (simp add: onMakeMove_def)
next
  case (Some gm)
  note g = this
  show ?thesis
  proof (cases "players s sid")
    case None
    with g show ?thesis by (simp add: onMakeMove_def)
  next
    case (Some pl)
    note p = this
    show ?thesis
    proof (cases "currentTurn gm = psymbol pl")
      case False
      with g p show ?thesis by (simp add: onMakeMove_def)
    next
      case True
      from makeMove_returns [OF key, of "psymbol pl" gm] obtain ok gm'
        where m: "makeMove pos (psymbol pl) gm = (Inr ok, gm')"
        by (metis prod.collapse)
      show ?thesis
      proof (cases ok)
        case True
        with g p m \<open>currentTurn gm = psymbol pl\<close> show ?thesis
          by (simp add: onMakeMove_def Let_def)
      next
        case False
        with g p m \<open>currentTurn gm = psymbol pl\<close> show ?thesis
          by (simp add: onMakeMove_def)
      qed
    qed
  qed
qed

lemma handle_returns:
  "\<forall>sid rid now. e \<noteq> MakeMove sid rid Unconvertible now \<Longrightarrow> \<exists>ms. fst (handle e s) = Inr ms"
  by (cases e) (auto simp: emitted_def onMakeMove_returns)

lemma run_step: "handle e s = (Inr ms, s') \<Longrightarrow> run (e # es) s = run es s'"
  by simp

lemma run_single: "run [e] s = snd (handle e s)"
  by (cases "handle e s") (auto split: sum.splits)

text \<open>Processing goes on to the next events after a list of events of which none throws.\<close>

lemma run_append:
  "\<forall>sid rid now. MakeMove sid rid Unconvertible now \<notin> set xs \<Longrightarrow>
     run (xs @ ys) s = run ys (run xs s)"
proof (induction xs arbitrary: s)
  case Nil
  show ?case by simp
next
  case (Cons e xs)
  from Cons.prems have "\<forall>sid rid now. e \<noteq> MakeMove sid rid Unconvertible now" by auto
  from handle_returns [OF this, of s] obtain ms s' where h: "handle e s = (Inr ms, s')"
    by (metis prod.collapse)
  from Cons.prems have "\<forall>sid rid now. MakeMove sid rid Unconvertible now \<notin> set xs" by auto
  from Cons.IH [OF this, of s'] h show ?case by simp
qed

lemma run_append_start: "run (startEvents @ ys) s = run ys (run startEvents s)"
  by (rule run_append) (simp add: startEvents_def)

lemma run_append_four: "run (fourEvents @ ys) s = run ys (run fourEvents s)"
  by (rule run_append) (simp add: fourEvents_def)

lemma run_append_win: "run (winEvents now @ ys) s = run ys (run (winEvents now) s)"
  by (rule run_append) (simp add: winEvents_def fourEvents_def)

lemma onMakeMove_accepted:
  assumes "games s rid = Some gm" and "players s sid = Some pl"
    and "currentTurn gm = psymbol pl" and "makeMove pos (psymbol pl) gm = (Inr True, gm')"
  shows "onMakeMove sid rid pos now s =
     (Inr [(ToRoom rid, GameUpdate (getState gm'))],
      if winner gm' \<noteq> None \<or> isDraw gm'
      then s\<lparr> games := (games s)(rid \<mapsto> gm'),
              metrics := updateMetrics ((now - startTime gm') / 1000) (metrics s),
              timers := timers s @
                [\<lparr> t_roomId = rid, t_socketId = sid, t_symbol = psymbol pl, t_game = gm',
                   t_gameDuration = (now - startTime gm') / 1000 \<rparr>] \<rparr>
      else s\<lparr> games := (games s)(rid \<mapsto> gm') \<rparr>)"
  using assms by (simp add: onMakeMove_def Let_def)

lemma onMakeMove_rejected:
  assumes "games s rid = Some gm" and "players s sid = Some pl"
  shows "psymbol pl \<noteq> currentTurn gm \<Longrightarrow>
           onMakeMove sid rid pos now s = (Inr [(ToSocket sid, Error ''Not your turn'')], s)"
    and "psymbol pl = currentTurn gm \<Longrightarrow> makeMove pos (psymbol pl) gm = (Inr False, gm) \<Longrightarrow>
           onMakeMove sid rid pos now s = (Inr [(ToSocket sid, Error ''Invalid move'')], s)"
  using assms by (auto simp: onMakeMove_def)

text \<open>With a position that has no property key the exception leaves the handler.\<close>

lemma onMakeMove_throws:
  assumes "games s rid = Some gm" and "players s sid = Some pl"
    and "psymbol pl = currentTurn gm"
  shows "onMakeMove sid rid Unconvertible now s = (Inl TypeError, s)"
  using assms by (simp add: onMakeMove_def makeMove_thrown)

lemma game_steps:
  "makeMove (Num 0) SymX exampleGame =
     (Inr True, exampleGame\<lparr> board := [Mark SymX, Null, Null, Null, Null, Null, Null, Null, Null],
                          currentTurn := SymO, moveCount := 1 \<rparr>)"
  "makeMove (Num 3) SymO
     (exampleGame\<lparr> board := [Mark SymX, Null, Null, Null, Null, Null, Null, Null, Null],
                    currentTurn := SymO, moveCount := 1 \<rparr>) =
     (Inr True, exampleGame\<lparr> board := [Mark SymX, Null, Null, Mark SymO, Null, Null, Null, Null, Null],
                          currentTurn := SymX, moveCount := 2 \<rparr>)"
  "makeMove (Num 1) SymX
     (exampleGame\<lparr> board := [Mark SymX, Null, Null, Mark SymO, Null, Null, Null, Null, Null],
                    currentTurn := SymX, moveCount := 2 \<rparr>) =
     (Inr True, exampleGame\<lparr> board := [Mark SymX, Mark SymX, Null, Mark SymO, Null, Null, Null, Null, Null],
                          currentTurn := SymO, moveCount := 3 \<rparr>)"
  "makeMove (Num 4) SymO
     (exampleGame\<lparr> board := [Mark SymX, Mark SymX, Null, Mark SymO, Null, Null, Null, Null, Null],
                    currentTurn := SymO, moveCount := 3 \<rparr>) =
     (Inr True, beforeWin)"
  by (simp_all add: beforeWin_value exampleGame_def eval_defs)

text \<open>The four opening moves, sent by the two players of \<open>game_1\<close>, in any server state
  that holds the fresh game and the two memberships.\<close>

lemma fourEvents_run:
  assumes g: "games s ''game_1'' = Some exampleGame"
    and x: "players s ''s2'' = Some px" "psymbol px = SymX"
    and o: "players s ''s1'' = Some po" "psymbol po = SymO"
  shows "run fourEvents s = s\<lparr> games := (games s)(''game_1'' \<mapsto> beforeWin) \<rparr>"
proof -
  let ?g1 = "exampleGame\<lparr> board := [Mark SymX, Null, Null, Null, Null, Null, Null, Null, Null],
                          currentTurn := SymO, moveCount := 1 \<rparr>"
  let ?g2 = "exampleGame\<lparr> board := [Mark SymX, Null, Null, Mark SymO, Null, Null, Null, Null, Null],
                          currentTurn := SymX, moveCount := 2 \<rparr>"
  let ?g3 = "exampleGame\<lparr> board := [Mark SymX, Mark SymX, Null, Mark SymO, Null, Null, Null, Null, Null],
                          currentTurn := SymO, moveCount := 3 \<rparr>"
  let ?s1 = "s\<lparr> games := (games s)(''game_1'' \<mapsto> ?g1) \<rparr>"
  let ?s2 = "s\<lparr> games := (games s)(''game_1'' \<mapsto> ?g2) \<rparr>"
  let ?s3 = "s\<lparr> games := (games s)(''game_1'' \<mapsto> ?g3) \<rparr>"
  let ?s4 = "s\<lparr> games := (games s)(''game_1'' \<mapsto> beforeWin) \<rparr>"
  have 1: "handle (MakeMove ''s2'' ''game_1'' (Num 0) 1000) s
      = (Inr [(ToRoom ''game_1'', GameUpdate (getState ?g1))], ?s1)"
    using onMakeMove_accepted [OF g x(1), of "Num 0" ?g1 1000] game_steps(1) x(2)
    by (simp add: exampleGame_def newGame_def)
  have 2: "handle (MakeMove ''s1'' ''game_1'' (Num 3) 2000) ?s1
      = (Inr [(ToRoom ''game_1'', GameUpdate (getState ?g2))], ?s2)"
    using onMakeMove_accepted [of ?s1 "''game_1''" ?g1 "''s1''" po "Num 3" ?g2 2000]
      game_steps(2) o
    by (simp add: exampleGame_def newGame_def)
  have 3: "handle (MakeMove ''s2'' ''game_1'' (Num 1) 3000) ?s2
      = (Inr [(ToRoom ''game_1'', GameUpdate (getState ?g3))], ?s3)"
    using onMakeMove_accepted [of ?s2 "''game_1''" ?g2 "''s2''" px "Num 1" ?g3 3000]
      game_steps(3) x
    by (simp add: exampleGame_def newGame_def)
  have 4: "handle (MakeMove ''s1'' ''game_1'' (Num 4) 4000) ?s3
      = (Inr [(ToRoom ''game_1'', GameUpdate (getState beforeWin))], ?s4)"
    using onMakeMove_accepted [of ?s3 "''game_1''" ?g3 "''s1''" po "Num 4" beforeWin 4000]
      game_steps(4) o
    by (simp add: exampleGame_def newGame_def beforeWin_value)
  show ?thesis
    unfolding fourEvents_def run_step [OF 1] run_step [OF 2] run_step [OF 3] run_step [OF 4]
    by simp
qed

lemma winning_move:
  assumes g: "games s ''game_1'' = Some beforeWin"
    and x: "players s ''s2'' = Some px" "psymbol px = SymX"
  shows "onMakeMove ''s2'' ''game_1'' (Num 2) now s =
     (Inr [(ToRoom ''game_1'', GameUpdate (getState afterWin))],
      s\<lparr> games := (games s)(''game_1'' \<mapsto> afterWin),
         metrics := updateMetrics (now / 1000) (metrics s),
         timers := timers s @
           [\<lparr> t_roomId = ''game_1'', t_socketId = ''s2'', t_symbol = SymX, t_game = afterWin,
              t_gameDuration = now / 1000 \<rparr>] \<rparr>)"
  using onMakeMove_accepted [OF g x(1), of "Num 2" afterWin now] afterWin_value(1) x(2)
  by (simp add: afterWin_value(2) beforeWin_value)


lemma afterWinMove_value:
  "afterWinMove =
     \<lparr> games = [''game_1'' \<mapsto> afterWin],
       players = [''s2'' \<mapsto> \<lparr> proomId = ''game_1'', psymbol = SymX, pname = ''Player1'' \<rparr>,
                  ''s1'' \<mapsto> \<lparr> proomId = ''game_1'', psymbol = SymO, pname = ''Player2'' \<rparr>],
       waitingPlayers = [],
       metrics = \<lparr> totalGames = 1, activeGames = 0, totalConnections = 0,
                   peakConnections = 0, averageGameDuration = 5 \<rparr>,
       timers = [\<lparr> t_roomId = ''game_1'', t_socketId = ''s2'', t_symbol = SymX,
                   t_game = afterWin, t_gameDuration = 5 \<rparr>] \<rparr>"
proof -
  have four: "run fourEvents afterStart =
      afterStart\<lparr> games := (games afterStart)(''game_1'' \<mapsto> beforeWin) \<rparr>"
    by (rule fourEvents_run [where px = "\<lparr> proomId = ''game_1'', psymbol = SymX, pname = ''Player1'' \<rparr>"
          and po = "\<lparr> proomId = ''game_1'', psymbol = SymO, pname = ''Player2'' \<rparr>"])
       (simp_all add: afterStart_value)
  have "afterWinMove = snd (onMakeMove ''s2'' ''game_1'' (Num 2) 5000 (run fourEvents afterStart))"
    by (simp add: afterWinMove_def winEvents_def run_append_four run_single del: run.simps)
  also have "\<dots> = snd (onMakeMove ''s2'' ''game_1'' (Num 2) 5000
      (afterStart\<lparr> games := (games afterStart)(''game_1'' \<mapsto> beforeWin) \<rparr>))"
    by (simp only: four)
  finally show ?thesis
    using winning_move [of "afterStart\<lparr> games := (games afterStart)(''game_1'' \<mapsto> beforeWin) \<rparr>"
        "\<lparr> proomId = ''game_1'', psymbol = SymX, pname = ''Player1'' \<rparr>" 5000]
    by (simp add: afterStart_value updateMetrics_def)
qed

section \<open>The claims about the event handlers\<close>

text \<open>
  Claim C4, evaluated on the code. The winning move takes \<open>activeGames\<close> from 1 to 0 and
  leaves the game and both memberships in place until the deferred callback runs. A
  disconnect of \<open>s1\<close> that arrives before the callback notifies \<open>s2\<close> alone, and takes
  \<open>activeGames\<close> down a second time, to \<open>-1\<close>, where it stays after the callback. When
  the callback runs first, the later disconnect finds no membership: it notifies nobody
  and the counter stays at 0.
\<close>

theorem active_games_decremented_twice:
  "activeGames (metrics (run startEvents initial)) = 1
     \<and> activeGames (metrics (run (startEvents @ winEvents 5000) initial)) = 0
     \<and> fst (onDisconnect ''s1'' (run (startEvents @ winEvents 5000) initial))
         = [(ToSocket ''s2'', OpponentDisconnected)]
     \<and> activeGames (metrics (run (startEvents @ winEvents 5000 @ [Disconnect ''s1'']) initial))
         = - 1
     \<and> activeGames
          (metrics (run (startEvents @ winEvents 5000 @ [Disconnect ''s1'', Timeout]) initial))
         = - 1
     \<and> fst (onDisconnect ''s1'' (run (startEvents @ winEvents 5000 @ [Timeout]) initial)) = []
     \<and> activeGames
          (metrics (run (startEvents @ winEvents 5000 @ [Timeout, Disconnect ''s1'']) initial))
         = 0"
proof -
  have s: "run (startEvents @ winEvents 5000) initial = afterWinMove"
    by (simp add: run_append_start afterWinMove_def afterStart_def)
  have t: "run (startEvents @ winEvents 5000 @ es) initial = run es afterWinMove" for es
    by (simp add: run_append_start run_append_win afterWinMove_def afterStart_def)
  have 1: "activeGames (metrics (run startEvents initial)) = 1"
    using afterStart_value by (simp add: afterStart_def)
  have 2: "activeGames (metrics afterWinMove) = 0"
    by (simp add: afterWinMove_value)
  have 3: "fst (onDisconnect ''s1'' afterWinMove) = [(ToSocket ''s2'', OpponentDisconnected)]"
    by (simp add: afterWinMove_value onDisconnect_def opponentOf_def Let_def afterWin_value(2))
  have 4: "activeGames (metrics (snd (onDisconnect ''s1'' afterWinMove))) = - 1"
    by (simp add: afterWinMove_value onDisconnect_def opponentOf_def Let_def afterWin_value(2))
  have 5: "activeGames (metrics (snd (onTimeout (snd (onDisconnect ''s1'' afterWinMove))))) = - 1"
    by (simp add: afterWinMove_value onDisconnect_def onTimeout_def opponentOf_def Let_def
        afterWin_value(2))
  have a: "run (startEvents @ winEvents 5000 @ [Disconnect ''s1'']) initial
      = snd (onDisconnect ''s1'' afterWinMove)"
    by (simp add: t emitted_def)
  have b: "run (startEvents @ winEvents 5000 @ [Disconnect ''s1'', Timeout]) initial
      = snd (onTimeout (snd (onDisconnect ''s1'' afterWinMove)))"
    by (simp add: t emitted_def)
  have 6: "fst (onDisconnect ''s1'' (snd (onTimeout afterWinMove))) = []"
    by (simp add: afterWinMove_value onDisconnect_def onTimeout_def opponentOf_def Let_def
        afterWin_value(2))
  have 7: "activeGames (metrics (snd (onDisconnect ''s1'' (snd (onTimeout afterWinMove))))) = 0"
    by (simp add: afterWinMove_value onDisconnect_def onTimeout_def opponentOf_def Let_def
        afterWin_value(2))
  have c: "run (startEvents @ winEvents 5000 @ [Timeout]) initial = snd (onTimeout afterWinMove)"
    by (simp add: t emitted_def)
  have d: "run (startEvents @ winEvents 5000 @ [Timeout, Disconnect ''s1'']) initial
      = snd (onDisconnect ''s1'' (snd (onTimeout afterWinMove)))"
    by (simp add: t emitted_def)
  show ?thesis unfolding s a b c d using 1 2 3 4 5 6 7 by simp
qed

text \<open>Over this run the counter of active games has gone down by two for one game.\<close>

theorem active_games_decremented_twice_witness:
  "activeGames (metrics (run startEvents initial))
     - activeGames
         (metrics (run (startEvents @ winEvents 5000 @ [Disconnect ''s1'', Timeout]) initial))
     = 2"
  using active_games_decremented_twice by simp

text \<open>
  Claim C5, evaluated on the code. Two games have been created and the first one ends
  after 10 seconds, the only game completed so far: the reported average is 5, the
  duration divided by \<open>totalGames\<close>, the number of games created.
\<close>

theorem average_divides_by_games_created:
  "totalGames (metrics twoGames) = 2
     \<and> map t_gameDuration (timers (run (winEvents 10000) twoGames)) = [10]
     \<and> averageGameDuration (metrics (run (winEvents 10000) twoGames)) = 5"
proof -
  let ?s4 = "twoGames\<lparr> games := (games twoGames)(''game_1'' \<mapsto> beforeWin) \<rparr>"
  have four: "run fourEvents twoGames = ?s4"
    by (rule fourEvents_run [where px = "\<lparr> proomId = ''game_1'', psymbol = SymX, pname = ''Player1'' \<rparr>"
          and po = "\<lparr> proomId = ''game_1'', psymbol = SymO, pname = ''Player2'' \<rparr>"])
       (simp_all add: twoGames_value)
  have "run (winEvents 10000) twoGames
      = snd (onMakeMove ''s2'' ''game_1'' (Num 2) 10000 (run fourEvents twoGames))"
    by (simp add: winEvents_def run_append_four run_single del: run.simps)
  also have "\<dots> = snd (onMakeMove ''s2'' ''game_1'' (Num 2) 10000 ?s4)"
    by (simp only: four)
  finally have r: "run (winEvents 10000) twoGames
      = snd (onMakeMove ''s2'' ''game_1'' (Num 2) 10000 ?s4)" .
  have w: "snd (onMakeMove ''s2'' ''game_1'' (Num 2) 10000 ?s4) =
      ?s4\<lparr> games := (games ?s4)(''game_1'' \<mapsto> afterWin),
         metrics := updateMetrics (10000 / 1000) (metrics ?s4),
         timers := timers ?s4 @
           [\<lparr> t_roomId = ''game_1'', t_socketId = ''s2'', t_symbol = SymX, t_game = afterWin,
              t_gameDuration = 10000 / 1000 \<rparr>] \<rparr>"
    using winning_move [of ?s4 "\<lparr> proomId = ''game_1'', psymbol = SymX, pname = ''Player1'' \<rparr>" 10000]
    by (simp add: twoGames_value)
  show ?thesis unfolding r w by (simp add: twoGames_value updateMetrics_def)
qed

text \<open>
  The reported average is not the mean of the durations of the completed games.
\<close>

theorem average_divides_by_games_created_witness:
  "averageGameDuration (metrics (run (winEvents 10000) twoGames))
     \<noteq> sum_list (map t_gameDuration (timers (run (winEvents 10000) twoGames)))
         / of_nat (length (map t_gameDuration (timers (run (winEvents 10000) twoGames))))"
  using average_divides_by_games_created by simp

text \<open>
  Claim C3, evaluated on the code. Socket \<open>s2\<close> is a member of \<open>game_1\<close>. Its move
  request names \<open>game_2\<close>, where X is to move and \<open>s2\<close> is X in its own game: the handler
  writes the marker into the board of \<open>game_2\<close>, flips its turn and counts the move.
\<close>

theorem move_changes_foreign_session:
  "map_option proomId (players twoGames ''s2'') = Some ''game_1''
     \<and> map_option board (games twoGames ''game_2'')
         = Some [Null, Null, Null, Null, Null, Null, Null, Null, Null]
     \<and> map_option currentTurn (games twoGames ''game_2'') = Some SymX
     \<and> map_option moveCount (games twoGames ''game_2'') = Some 0
     \<and> map_option board (games (snd (onMakeMove ''s2'' ''game_2'' (Num 0) 5000 twoGames)) ''game_2'')
         = Some [Mark SymX, Null, Null, Null, Null, Null, Null, Null, Null]
     \<and> map_option currentTurn
          (games (snd (onMakeMove ''s2'' ''game_2'' (Num 0) 5000 twoGames)) ''game_2'')
         = Some SymO
     \<and> map_option moveCount
          (games (snd (onMakeMove ''s2'' ''game_2'' (Num 0) 5000 twoGames)) ''game_2'')
         = Some 1"
proof -
  have m: "makeMove (Num 0) SymX (newGame ''game_2'' ''s4'' ''s3'' 0) =
      (Inr True, (newGame ''game_2'' ''s4'' ''s3'' 0)
          \<lparr> board := [Mark SymX, Null, Null, Null, Null, Null, Null, Null, Null],
            currentTurn := SymO, moveCount := 1 \<rparr>)"
    by (simp add: eval_defs)
  have "snd (onMakeMove ''s2'' ''game_2'' (Num 0) 5000 twoGames) =
      twoGames\<lparr> games := (games twoGames)(''game_2'' \<mapsto>
        (newGame ''game_2'' ''s4'' ''s3'' 0)
          \<lparr> board := [Mark SymX, Null, Null, Null, Null, Null, Null, Null, Null],
            currentTurn := SymO, moveCount := 1 \<rparr>) \<rparr>"
    using onMakeMove_accepted [of twoGames "''game_2''" "newGame ''game_2'' ''s4'' ''s3'' 0"
        "''s2''" "\<lparr> proomId = ''game_1'', psymbol = SymX, pname = ''Player1'' \<rparr>" "Num 0" _ 5000] m
    by (simp add: twoGames_value newGame_def)
  then show ?thesis by (simp add: twoGames_value newGame_def numeral_eq_Suc)
qed

text \<open>The request of a member of \<open>game_1\<close> has changed the board of \<open>game_2\<close>.\<close>

theorem move_changes_foreign_session_witness:
  "map_option proomId (players twoGames ''s2'') = Some ''game_1''
     \<and> map_option board (games (snd (onMakeMove ''s2'' ''game_2'' (Num 0) 5000 twoGames)) ''game_2'')
         \<noteq> map_option board (games twoGames ''game_2'')"
proof -
  from move_changes_foreign_session
  have m: "map_option proomId (players twoGames ''s2'') = Some ''game_1''"
    and b: "map_option board (games twoGames ''game_2'')
         = Some [Null, Null, Null, Null, Null, Null, Null, Null, Null]"
    and a: "map_option board
          (games (snd (onMakeMove ''s2'' ''game_2'' (Num 0) 5000 twoGames)) ''game_2'')
         = Some [Mark SymX, Null, Null, Null, Null, Null, Null, Null, Null]"
    by blast+
  have "map_option board (games (snd (onMakeMove ''s2'' ''game_2'' (Num 0) 5000 twoGames)) ''game_2'')
         \<noteq> map_option board (games twoGames ''game_2'')"
    unfolding a b by simp
  with m show ?thesis by blast
qed



text \<open>
  Claim C2, as amended. The role check is the move handler's alone: a move request from
  a socket whose membership role is not the active role of the named game is answered
  with \<open>Not your turn\<close> and changes nothing in the server state, so nothing is written
  into the board. \<open>makeMove\<close> itself does not look at the role: it accepts a call for any
  marker exactly when the cell is empty and no terminal flag is set.
\<close>

theorem inactive_role_rejected_by_handler_only:
  assumes "games s rid = Some gm" and "players s sid = Some pl"
    and "psymbol pl \<noteq> currentTurn gm"
  shows "onMakeMove sid rid pos now s = (Inr [(ToSocket sid, Error ''Not your turn'')], s)
     \<and> (fst (makeMove pos role gm) = Inr True \<longleftrightarrow>
          getCell (board gm) pos = Inr Null \<and> winner gm = None \<and> \<not> isDraw gm)"
  using onMakeMove_rejected(1) [OF assms] makeMove_accepts_iff by blast

theorem inactive_role_rejected_by_handler_only_witness:
  "games afterStart ''game_1'' = Some exampleGame
     \<and> currentTurn exampleGame = SymX
     \<and> map_option psymbol (players afterStart ''s1'') = Some SymO
     \<and> onMakeMove ''s1'' ''game_1'' (Num 0) 1000 afterStart
         = (Inr [(ToSocket ''s1'', Error ''Not your turn'')], afterStart)
     \<and> fst (makeMove (Num 0) SymO exampleGame) = Inr True"
proof -
  have g: "games afterStart ''game_1'' = Some exampleGame"
    and p: "players afterStart ''s1''
      = Some \<lparr> proomId = ''game_1'', psymbol = SymO, pname = ''Player2'' \<rparr>"
    by (simp_all add: afterStart_value)
  have t: "psymbol \<lparr> proomId = ''game_1'', psymbol = SymO, pname = ''Player2'' \<rparr>
      \<noteq> currentTurn exampleGame"
    by (simp add: exampleGame_def newGame_def)
  have e: "getCell (board exampleGame) (Num 0) = Inr Null \<and> winner exampleGame = None
      \<and> \<not> isDraw exampleGame"
    by (simp add: exampleGame_def newGame_def getCell_def cellAt_def)
  from inactive_role_rejected_by_handler_only [OF g p t, of "Num 0" 1000 SymO] e g p
  show ?thesis by (simp add: exampleGame_def newGame_def)
qed

text \<open>
  The claim as written fails: on a fresh game, where X is to move, \<open>makeMove\<close> called
  with the marker O is accepted and writes O into cell 0.
\<close>

theorem makeMove_accepts_inactive_role_counterexample:
  "currentTurn exampleGame = SymX
     \<and> fst (makeMove (Num 0) SymO exampleGame) = Inr True
     \<and> board (snd (makeMove (Num 0) SymO exampleGame))
         = [Mark SymO, Null, Null, Null, Null, Null, Null, Null, Null]
     \<and> board exampleGame = [Null, Null, Null, Null, Null, Null, Null, Null, Null]"
  by (simp add: exampleGame_def eval_defs)



end
